theory Spec2Isabelle
  imports Main "HOL-Library.Word" "HOL-Library.Sublist"
begin

section \<open>JSON values and JavaScript strings\<close>

text \<open>
  The router works on request bodies that \<open>bodyParser.json()\<close> has already parsed. A parsed
  body is a JSON value. Numbers are kept opaque (type \<open>'n\<close>): nothing in the program computes
  with them; their texts are supplied by the platform record below. An object lists its
  properties in enumeration order. A string is a list of code units; the development covers
  code units up to 255, where the line terminators of a JavaScript regular expression are
  LF and CR.
\<close>

datatype 'n json =
    JNull
  | JBool bool
  | JNumber 'n
  | JString string
  | JArray "'n json list"
  | JObject "(string \<times> 'n json) list"

text \<open>\<open>instance[key]\<close>: \<open>None\<close> is JavaScript's \<open>undefined\<close>.\<close>

definition get_property :: "'n json \<Rightarrow> string \<Rightarrow> 'n json option" where
  "get_property v key = (case v of JObject kvs \<Rightarrow> map_of kvs key | _ \<Rightarrow> None)"

section \<open>Errors, promises, tokens and HTTP messages\<close>

text \<open>A JavaScript \<open>Error\<close>: its \<open>name\<close> and its \<open>message\<close>.\<close>

datatype error = Error (name: string) (message: string)

text \<open>
  A promise as a handler finds it when it runs: still pending (the handler's continuation
  never runs), rejected, or fulfilled with a value. An operation that throws before it
  returns its promise counts as rejected.
\<close>

datatype 'a promise = Pending | Rejected error | Fulfilled 'a

type_synonym byte = "8 word"
type_synonym bytes = "byte list"

text \<open>
  The claims \<open>authorize\<close> signs: \<open>aud\<close>, \<open>sub\<close> (a property read, so possibly undefined)
  and \<open>context.user\<close>. A token is kept symbolic: the claims it carries and the
  authentication code over them. The \<open>iat\<close> claim that \<open>jsonwebtoken\<close> adds is left out.
\<close>

record 'n payload =
  aud :: string
  sub :: "'n json option"
  context_user :: "'n json"

datatype 'n token = Token (claims: "'n payload") (signature: bytes)

text \<open>
  A request as the routes see it: the method, the path inside the router as its non-empty
  segments, as they were sent (a route is matched before any percent escape is decoded),
  the parsed body, the bearer token of the \<open>Authorization\<close> header (\<open>None\<close> when there is no
  header of the shape \<open>Bearer <token>\<close>), and the value of the header
  \<open>Access-Control-Request-Headers\<close>, if the request has one.
\<close>

record 'n request =
  http_method :: string
  path :: "string list"
  body :: "'n json"
  authorization :: "'n token option"
  access_control_request_headers :: "string option"

text \<open>
  What a handler sends: \<open>res.json\<close> of a message, of the collection's insert result or of
  a token, or \<open>res.send\<close> of a text. \<open>res.json\<close> without \<open>res.status\<close> answers 200.
\<close>

datatype ('n, 'r) reply =
    JsonText string
  | JsonResult 'r
  | JsonToken "'n token"
  | PlainText string

record ('n, 'r) response =
  status :: nat
  sent :: "('n, 'r) reply"

section \<open>credentials.js\<close>

subsection \<open>The two patterns\<close>

definition char_range :: "char \<Rightarrow> char \<Rightarrow> char \<Rightarrow> bool" where
  "char_range lo hi c = ((of_char lo :: nat) \<le> of_char c \<and> (of_char c :: nat) \<le> of_char hi)"

text \<open>\<open>[A-Z]\<close>, \<open>[a-z]\<close>, \<open>[0-9]\<close>.\<close>

definition upper :: "char \<Rightarrow> bool" where
  "upper c = char_range (CHR ''A'') (CHR ''Z'') c"

definition lower :: "char \<Rightarrow> bool" where
  "lower c = char_range (CHR ''a'') (CHR ''z'') c"

definition digit :: "char \<Rightarrow> bool" where
  "digit c = char_range (CHR ''0'') (CHR ''9'') c"

text \<open>
  The characters written between the brackets of the fourth class of \<open>PASSWORD_REGEX\<close>, in
  the order of the source: tilde, backtick (0x60), \<open>!@#$%^&*()-_+={}[\<close>, the escaped \<open>]\<close>,
  \<open>|;:\<close>, the double quote (0x22) and \<open><>,./?\<close>.
\<close>

definition special_chars :: "char list" where
  "special_chars =
     [CHR ''~'', CHR 0x60, CHR ''!'', CHR ''@'', CHR ''#'', CHR ''$'', CHR ''%'', CHR ''^'',
      CHR ''&'', CHR ''*'', CHR ''('', CHR '')'', CHR ''-'', CHR ''_'', CHR ''+'', CHR ''='',
      CHR ''{'', CHR ''}'', CHR ''['', CHR '']'', CHR ''|'', CHR '';'', CHR '':'', CHR 0x22,
      CHR ''<'', CHR ''>'', CHR '','', CHR ''.'', CHR ''/'', CHR ''?'']"

text \<open>
  What the regular expression engine reads in that class: \<open>)-_\<close> stands between two
  characters, so it is the range from \<open>)\<close> (0x29) to \<open>_\<close> (0x5F); every other character
  stands for itself.
\<close>

definition special_class :: "char \<Rightarrow> bool" where
  "special_class c =
     (c \<in> set [CHR ''~'', CHR 0x60, CHR ''!'', CHR ''@'', CHR ''#'', CHR ''$'', CHR ''%'',
                CHR ''^'', CHR ''&'', CHR ''*'', CHR ''(''] \<or>
      char_range (CHR '')'') (CHR ''_'') c \<or>
      c \<in> set [CHR ''+'', CHR ''='', CHR ''{'', CHR ''}'', CHR ''['', CHR '']'', CHR ''|'',
                CHR '';'', CHR '':'', CHR 0x22, CHR ''<'', CHR ''>'', CHR '','', CHR ''.'',
                CHR ''/'', CHR ''?''])"

text \<open>\<open>.\<close> matches every character but a line terminator.\<close>

definition dot :: "char \<Rightarrow> bool" where
  "dot c = (c \<noteq> CHR 0x0A \<and> c \<noteq> CHR 0x0D)"

text \<open>
  \<open>(?=.*[cls])\<close> at the head of \<open>s\<close>: either the class matches here, or \<open>.\<close> takes one
  character and the search goes on.
\<close>

fun lookahead :: "(char \<Rightarrow> bool) \<Rightarrow> string \<Rightarrow> bool" where
  "lookahead cls [] = False"
| "lookahead cls (c # cs) = (cls c \<or> (dot c \<and> lookahead cls cs))"

text \<open>
  \<open>/^(?=.*[A-Z])(?=.*[a-z])(?=.*[0-9])(?=.*[...]).{8,}$/\<close>: the four lookaheads at
  position 0, then at least eight \<open>.\<close> up to the end of the input.
\<close>

definition PASSWORD_REGEX :: "string \<Rightarrow> bool" where
  "PASSWORD_REGEX s =
     (lookahead upper s \<and> lookahead lower s \<and> lookahead digit s \<and>
      lookahead special_class s \<and> 8 \<le> length s \<and> list_all dot s)"

text \<open>\<open>'^[a-z0-9_]+$'\<close>.\<close>

definition USERNAME_PATTERN :: "string \<Rightarrow> bool" where
  "USERNAME_PATTERN s =
     (s \<noteq> [] \<and> list_all (\<lambda>c. lower c \<or> digit c \<or> c = CHR ''_'') s)"

subsection \<open>validate\<close>

text \<open>
  \<open>JSONSchema.validate(credentials, schema, {throwError: true})\<close> throws the first error it
  meets. An error carries the path of the value it is about (\<open>property\<close>) and the schema
  keyword that failed (\<open>vname\<close>).
\<close>

datatype validation_error = ValidationError (property: string) (vname: string)

text \<open>
  One entry of \<open>properties\<close>, \<open>{type: 'string', pattern: ...}\<close>, checked on \<open>instance[key]\<close>:
  both keywords ignore an undefined value; \<open>type\<close> comes first; \<open>pattern\<close> only looks at
  strings. The error's path is the parent's path followed by the key.
\<close>

definition validate_property ::
  "string \<Rightarrow> (string \<Rightarrow> bool) \<Rightarrow> 'n json \<Rightarrow> validation_error option" where
  "validate_property key pattern instance =
     (case get_property instance key of
        None \<Rightarrow> None
      | Some (JString s) \<Rightarrow>
          if pattern s then None else Some (ValidationError (''instance.'' @ key) ''pattern'')
      | Some _ \<Rightarrow> Some (ValidationError (''instance.'' @ key) ''type''))"

text \<open>\<open>required: [...]\<close>: the first listed key whose value is undefined is reported, at the
  path of the object itself.\<close>

fun validate_required :: "string list \<Rightarrow> 'n json \<Rightarrow> validation_error option" where
  "validate_required [] instance = None"
| "validate_required (key # keys) instance =
     (case get_property instance key of
        None \<Rightarrow> Some (ValidationError ''instance'' ''required'')
      | Some _ \<Rightarrow> validate_required keys instance)"

text \<open>
  The schema's keywords in the order written: \<open>properties\<close> (\<open>username\<close>, then
  \<open>password\<close>), then \<open>required\<close>. Both keywords apply to objects only, so any other value
  passes.
\<close>

definition validate :: "'n json \<Rightarrow> validation_error + unit" where
  "validate credentials =
     (case credentials of
        JObject kvs \<Rightarrow>
          (case validate_property ''username'' USERNAME_PATTERN credentials of
             Some e \<Rightarrow> Inl e
           | None \<Rightarrow>
               (case validate_property ''password'' PASSWORD_REGEX credentials of
                  Some e \<Rightarrow> Inl e
                | None \<Rightarrow>
                    (case validate_required [''username'', ''password''] credentials of
                       Some e \<Rightarrow> Inl e
                     | None \<Rightarrow> Inr ())))
      | _ \<Rightarrow> Inr ())"

subsection \<open>middleware\<close>

definition password_message :: string where
  "password_message =
     ''Password should be at least 8 chars long and include a capital letter, a small letter, a digit and a special char.''"

definition username_message :: string where
  "username_message = ''Username should only include small letters, digits and underscores.''"

definition generic_message :: string where
  "generic_message =
     ''An error ecured while validating the provided credentials. Make sure the is at least 8 chars long and includes a capital letter, a small letter, a digit and a special char, and the username only includes small letters, digits and underscores.''"

text \<open>\<open>None\<close> is \<open>next()\<close>: the request goes on to the route's handler.\<close>

definition middleware :: "'n request \<Rightarrow> ('n, 'r) response option" where
  "middleware req =
     (case validate (body req) of
        Inr _ \<Rightarrow> None
      | Inl err \<Rightarrow>
          if property err = ''instance.password''
            then Some \<lparr>status = 400, sent = JsonText password_message\<rparr>
          else if property err = ''instance.username''
            then Some \<lparr>status = 400, sent = JsonText username_message\<rparr>
          else Some \<lparr>status = 400, sent = JsonText generic_message\<rparr>)"

section \<open>The platform\<close>

text \<open>
  Library functions the program calls and whose results it only passes on: \<open>path.join\<close>,
  \<open>path.dirname\<close>, the keyed authentication code behind \<open>JWT.sign\<close> and the verification of
  \<open>express-jwt\<close>, the text of a number in a template (\<open>number_text\<close>) and in
  \<open>JSON.stringify\<close> (\<open>number_json\<close>), and the decoding of a route parameter by Express
  (\<open>decodeURIComponent\<close>, which throws on a malformed percent escape).
\<close>

record 'n platform =
  path_join :: "string \<Rightarrow> string \<Rightarrow> string"
  path_dirname :: "string \<Rightarrow> string"
  hmac :: "bytes \<Rightarrow> 'n payload \<Rightarrow> bytes"
  number_text :: "'n \<Rightarrow> string"
  number_json :: "'n \<Rightarrow> string"
  decode_param :: "string \<Rightarrow> error + string"

subsection \<open>Strings of values\<close>

fun join_with :: "string \<Rightarrow> string list \<Rightarrow> string" where
  "join_with sep [] = []"
| "join_with sep [x] = x"
| "join_with sep (x # y # ys) = x @ sep @ join_with sep (y # ys)"

text \<open>
  \<open>`${v}`\<close>: the string of a value in a template. An array joins the strings of its
  elements with commas, \<open>null\<close> elements giving the empty string.
\<close>

fun template_json :: "('n \<Rightarrow> string) \<Rightarrow> 'n json \<Rightarrow> string" where
  "template_json num JNull = ''null''"
| "template_json num (JBool b) = (if b then ''true'' else ''false'')"
| "template_json num (JNumber n) = num n"
| "template_json num (JString s) = s"
| "template_json num (JArray xs) =
     join_with '','' (map (\<lambda>x. if x = JNull then [] else template_json num x) xs)"
| "template_json num (JObject kvs) = ''[object Object]''"

definition template :: "('n \<Rightarrow> string) \<Rightarrow> 'n json option \<Rightarrow> string" where
  "template num v = (case v of None \<Rightarrow> ''undefined'' | Some j \<Rightarrow> template_json num j)"

text \<open>
  \<open>JSON.stringify\<close>. In a string the double quote (0x22), the backslash (0x5C) and the
  control characters are escaped.
\<close>

definition hex_digit :: "nat \<Rightarrow> char" where
  "hex_digit n = ''0123456789abcdef'' ! (n mod 16)"

definition escape :: "char \<Rightarrow> string" where
  "escape c =
     (if c = CHR 0x22 then [CHR 0x5C, CHR 0x22]
      else if c = CHR 0x5C then [CHR 0x5C, CHR 0x5C]
      else if c = CHR 0x08 then [CHR 0x5C, CHR ''b'']
      else if c = CHR 0x09 then [CHR 0x5C, CHR ''t'']
      else if c = CHR 0x0A then [CHR 0x5C, CHR ''n'']
      else if c = CHR 0x0C then [CHR 0x5C, CHR ''f'']
      else if c = CHR 0x0D then [CHR 0x5C, CHR ''r'']
      else if (of_char c :: nat) < 32
        then [CHR 0x5C, CHR ''u'', CHR ''0'', CHR ''0'',
              hex_digit (of_char c div 16), hex_digit (of_char c)]
      else [c])"

definition quote :: "string \<Rightarrow> string" where
  "quote s = CHR 0x22 # concat (map escape s) @ [CHR 0x22]"

fun JSON_stringify :: "('n \<Rightarrow> string) \<Rightarrow> 'n json \<Rightarrow> string" where
  "JSON_stringify num JNull = ''null''"
| "JSON_stringify num (JBool b) = (if b then ''true'' else ''false'')"
| "JSON_stringify num (JNumber n) = num n"
| "JSON_stringify num (JString s) = quote s"
| "JSON_stringify num (JArray xs) =
     ''['' @ join_with '','' (map (JSON_stringify num) xs) @ '']''"
| "JSON_stringify num (JObject kvs) =
     ''{'' @ join_with '','' (map (\<lambda>kv. quote (fst kv) @ '':'' @ JSON_stringify num (snd kv)) kvs)
       @ ''}''"

subsection \<open>Files and random bytes\<close>

text \<open>
  The world outside the program: the collection's database, the files and directories of
  the file system, and the system's random bytes, of which \<open>drawn\<close> have been used.
\<close>

record 'db world =
  db :: 'db
  files :: "string \<rightharpoonup> bytes"
  dirs :: "string set"
  entropy :: "nat \<Rightarrow> byte"
  drawn :: nat

text \<open>
  \<open>mkdirp.sync\<close>: makes the directory unless it is there; a file of that name is an error.
  The ancestors it makes on the way are not recorded: no operation here looks at them.
\<close>

definition mkdirp_sync :: "string \<Rightarrow> 'db world \<Rightarrow> error + 'db world" where
  "mkdirp_sync d w =
     (if d \<in> dom (files w) then Inl (Error ''Error'' ''EEXIST'')
      else Inr (w\<lparr>dirs := insert d (dirs w)\<rparr>))"

text \<open>\<open>fs.readFileSync\<close>: the bytes of a file; anything else throws.\<close>

definition readFileSync :: "string \<Rightarrow> 'db world \<Rightarrow> error + bytes" where
  "readFileSync p w =
     (case files w p of
        Some data \<Rightarrow> Inr data
      | None \<Rightarrow> Inl (Error ''Error'' (if p \<in> dirs w then ''EISDIR'' else ''ENOENT'')))"

text \<open>\<open>fs.writeFileSync\<close>: creates or replaces the file; a directory of that name is an error.\<close>

definition writeFileSync :: "string \<Rightarrow> bytes \<Rightarrow> 'db world \<Rightarrow> error + 'db world" where
  "writeFileSync p data w =
     (if p \<in> dirs w then Inl (Error ''Error'' ''EISDIR'')
      else Inr (w\<lparr>files := (files w)(p \<mapsto> data)\<rparr>))"

text \<open>\<open>crypto.randomBytes(n)\<close>: the next \<open>n\<close> bytes.\<close>

definition randomBytes :: "nat \<Rightarrow> 'db world \<Rightarrow> bytes \<times> 'db world" where
  "randomBytes n w = (map (entropy w) [drawn w ..< drawn w + n], w\<lparr>drawn := drawn w + n\<rparr>)"

section \<open>index.js\<close>

subsection \<open>getRandomBytesFrom\<close>

text \<open>
  The result is the secret or the exception that leaves the function, together with the
  world as the call left it.
\<close>

definition getRandomBytesFrom ::
  "'n platform \<Rightarrow> string \<Rightarrow> 'db world \<Rightarrow> (error + bytes) \<times> 'db world" where
  "getRandomBytesFrom P secretPath w =
     (case mkdirp_sync (path_dirname P secretPath) w of
        Inl e \<Rightarrow> (Inl e, w)
      | Inr w1 \<Rightarrow>
          (case readFileSync secretPath w1 of
             Inr data \<Rightarrow> (Inr data, w1)
           | Inl err \<Rightarrow>
               (let (secret, w2) = randomBytes 256 w1 in
                case writeFileSync secretPath secret w2 of
                  Inl e \<Rightarrow> (Inl e, w2)
                | Inr w3 \<Rightarrow> (Inr secret, w3))))"

subsection \<open>Signing and verifying\<close>

text \<open>\<open>JWT.sign(payload, secret)\<close>.\<close>

definition JWT_sign :: "'n platform \<Rightarrow> 'n payload \<Rightarrow> bytes \<Rightarrow> 'n token" where
  "JWT_sign P p secret = Token p (hmac P secret p)"

text \<open>
  The verification \<open>express-jwt\<close> runs on a bearer token: the authentication code has to be
  the one of the claims under the secret.
\<close>

definition JWT_verify :: "'n platform \<Rightarrow> bytes \<Rightarrow> 'n token \<Rightarrow> error + 'n payload" where
  "JWT_verify P secret t =
     (if signature t = hmac P secret (claims t) then Inr (claims t)
      else Inl (Error ''JsonWebTokenError'' ''invalid signature''))"

text \<open>\<open>s.split(',')\<close> and \<open>s.trim()\<close>.\<close>

fun split_commas :: "string \<Rightarrow> string list" where
  "split_commas [] = [[]]"
| "split_commas (c # cs) =
     (if c = CHR '','' then [] # split_commas cs
      else (case split_commas cs of
              [] \<Rightarrow> [[c]]
            | x # xs \<Rightarrow> (c # x) # xs))"

definition whitespace :: "char \<Rightarrow> bool" where
  "whitespace c =
     (c \<in> set [CHR 0x09, CHR 0x0A, CHR 0x0B, CHR 0x0C, CHR 0x0D, CHR 0x20, CHR 0xA0])"

definition trim :: "string \<Rightarrow> string" where
  "trim s = rev (dropWhile whitespace (rev (dropWhile whitespace s)))"

text \<open>
  The requests \<open>express-jwt\<close> lets pass unchecked: an \<open>OPTIONS\<close> request whose header
  \<open>Access-Control-Request-Headers\<close> lists \<open>authorization\<close> (a CORS preflight).
\<close>

definition preflight :: "'n request \<Rightarrow> bool" where
  "preflight req =
     (http_method req = ''OPTIONS'' \<and>
      (case access_control_request_headers req of
         None \<Rightarrow> False
       | Some v \<Rightarrow> ''authorization'' \<in> set (map trim (split_commas v))))"

text \<open>
  \<open>ExpressJWT({secret, aud})\<close> as a middleware. For a preflight it calls \<open>next()\<close> at once,
  and \<open>req.user\<close> stays undefined (\<open>Inr None\<close>). Otherwise it passes an \<open>UnauthorizedError\<close>
  to \<open>next\<close>, or sets \<open>req.user\<close> to the verified claims and calls \<open>next()\<close>. The
  verification reads its audience from the option \<open>audience\<close>; the router passes \<open>aud\<close>, so
  the audience claim is not compared.
\<close>

definition ExpressJWT ::
  "'n platform \<Rightarrow> bytes \<Rightarrow> 'n request \<Rightarrow> error + 'n payload option" where
  "ExpressJWT P secret req =
     (if preflight req then Inr None
      else
        (case authorization req of
           None \<Rightarrow> Inl (Error ''UnauthorizedError'' ''No authorization token was found'')
         | Some t \<Rightarrow>
             (case JWT_verify P secret t of
                Inl e \<Rightarrow> Inl (Error ''UnauthorizedError'' (message e))
              | Inr p \<Rightarrow> Inr (Some p))))"

subsection \<open>The collection\<close>

text \<open>
  The storage collaborator: \<open>insertOne\<close> and \<open>findOne\<close> act on the database and return a
  promise; \<open>findOne\<close> resolves to the record found, or to none.
\<close>

record ('n, 'db, 'r, 'u) collection =
  insertOne :: "'n json \<Rightarrow> 'db \<Rightarrow> 'r promise \<times> 'db"
  findOne :: "'n json \<Rightarrow> 'db \<Rightarrow> 'u option promise \<times> 'db"
  collectionName :: string

subsection \<open>register and authorize\<close>

definition register ::
  "('n, 'db, 'r, 'u) collection promise \<Rightarrow> 'n json \<Rightarrow> 'db world \<Rightarrow> 'r promise \<times> 'db world" where
  "register collectionPromise credentials w =
     (case collectionPromise of
        Pending \<Rightarrow> (Pending, w)
      | Rejected e \<Rightarrow> (Rejected e, w)
      | Fulfilled collection \<Rightarrow>
          (let (result, d) = insertOne collection credentials (db w) in (result, w\<lparr>db := d\<rparr>)))"

definition no_user_message :: "'n platform \<Rightarrow> 'n json \<Rightarrow> string" where
  "no_user_message P credentials =
     ''No user was found for the credentials: '' @ JSON_stringify (number_json P) credentials"

definition authorize ::
  "'n platform \<Rightarrow> ('n, 'db, 'r, 'u) collection promise \<Rightarrow> string \<Rightarrow> 'n json \<Rightarrow> 'db world
     \<Rightarrow> 'n token promise \<times> 'db world" where
  "authorize P collectionPromise secretsDir credentials w =
     (case collectionPromise of
        Pending \<Rightarrow> (Pending, w)
      | Rejected e \<Rightarrow> (Rejected e, w)
      | Fulfilled collection \<Rightarrow>
          (let (found, d) = findOne collection credentials (db w); w1 = w\<lparr>db := d\<rparr> in
           case found of
             Pending \<Rightarrow> (Pending, w1)
           | Rejected e \<Rightarrow> (Rejected e, w1)
           | Fulfilled None \<Rightarrow> (Rejected (Error ''Error'' (no_user_message P credentials)), w1)
           | Fulfilled (Some user) \<Rightarrow>
               (case getRandomBytesFrom P
                       (path_join P secretsDir (collectionName collection)) w1 of
                  (Inl e, w2) \<Rightarrow> (Rejected e, w2)
                | (Inr secret, w2) \<Rightarrow>
                    (Fulfilled
                       (JWT_sign P
                          \<lparr>aud = collectionName collection,
                           sub = get_property credentials ''username'',
                           context_user = credentials\<rparr>
                          secret),
                     w2))))"

subsection \<open>The router\<close>

text \<open>
  \<open>Users\<close> returns the router; the guard of \<open>'/:user'\<close> is added when the collection's
  promise is fulfilled, with the secret read or created at that moment. A call of
  \<open>getRandomBytesFrom\<close> that throws there leaves the router without guard.
\<close>

record ('n, 'db, 'r, 'u) router =
  collectionPromise :: "('n, 'db, 'r, 'u) collection promise"
  secretsDir :: string
  guard :: "bytes option"

definition Users ::
  "'n platform \<Rightarrow> ('n, 'db, 'r, 'u) collection promise \<Rightarrow> string \<Rightarrow> 'db world
     \<Rightarrow> ('n, 'db, 'r, 'u) router \<times> 'db world" where
  "Users P cp dir w =
     (case cp of
        Fulfilled collection \<Rightarrow>
          (case getRandomBytesFrom P (path_join P dir (collectionName collection)) w of
             (Inr secret, w1) \<Rightarrow>
               (\<lparr>collectionPromise = cp, secretsDir = dir, guard = Some secret\<rparr>, w1)
           | (Inl e, w1) \<Rightarrow> (\<lparr>collectionPromise = cp, secretsDir = dir, guard = None\<rparr>, w1))
      | _ \<Rightarrow> (\<lparr>collectionPromise = cp, secretsDir = dir, guard = None\<rparr>, w))"

text \<open>
  What the router does with a request: the response it sends, if any, and how control
  leaves it: the request ends in the router, \<open>next()\<close> hands it to the handlers after the
  router, or \<open>next(err)\<close> hands an error on.
\<close>

datatype control = Ended | Next | NextError error

record ('n, 'r) outcome =
  response :: "('n, 'r) response option"
  control :: control

text \<open>The handler of \<open>router.post('/')\<close>, after \<open>Credentials.middleware\<close> has let the request pass.\<close>

definition post_root ::
  "('n, 'db, 'r, 'u) router \<Rightarrow> 'n request \<Rightarrow> 'db world \<Rightarrow> ('n, 'r) outcome \<times> 'db world" where
  "post_root R req w =
     (case register (collectionPromise R) (body req) w of
        (Pending, w1) \<Rightarrow> (\<lparr>response = None, control = Ended\<rparr>, w1)
      | (Rejected e, w1) \<Rightarrow>
          (\<lparr>response = Some \<lparr>status = 400, sent = JsonText (message e)\<rparr>, control = Ended\<rparr>, w1)
      | (Fulfilled result, w1) \<Rightarrow>
          (\<lparr>response = Some \<lparr>status = 200, sent = JsonResult result\<rparr>, control = Ended\<rparr>, w1))"

text \<open>The handler of \<open>router.post('/authorize')\<close>, after the middleware.\<close>

definition post_authorize ::
  "'n platform \<Rightarrow> ('n, 'db, 'r, 'u) router \<Rightarrow> 'n request \<Rightarrow> 'db world
     \<Rightarrow> ('n, 'r) outcome \<times> 'db world" where
  "post_authorize P R req w =
     (case authorize P (collectionPromise R) (secretsDir R) (body req) w of
        (Pending, w1) \<Rightarrow> (\<lparr>response = None, control = Ended\<rparr>, w1)
      | (Rejected e, w1) \<Rightarrow>
          (\<lparr>response = Some \<lparr>status = 403, sent = JsonText (message e)\<rparr>, control = Ended\<rparr>, w1)
      | (Fulfilled t, w1) \<Rightarrow>
          (\<lparr>response = Some \<lparr>status = 200, sent = JsonToken t\<rparr>, control = Ended\<rparr>, w1))"

text \<open>The handler of \<open>router.all('/authorize')\<close>.\<close>

definition all_authorize :: "'n request \<Rightarrow> ('n, 'r) outcome" where
  "all_authorize req =
     \<lparr>response =
        Some \<lparr>status = 400,
              sent = JsonText (''Cannot '' @ http_method req @ '' /authorize, use POST instead'')\<rparr>,
      control = Ended\<rparr>"

text \<open>The error handler behind \<open>ExpressJWT\<close>.\<close>

definition jwt_error :: "error \<Rightarrow> ('n, 'r) outcome" where
  "jwt_error err =
     (if name err = ''UnauthorizedError''
        then \<lparr>response = Some \<lparr>status = 401, sent = PlainText (message err)\<rparr>, control = Ended\<rparr>
      else \<lparr>response = None, control = NextError err\<rparr>)"

text \<open>The engine's message for reading a property of \<open>undefined\<close> (its wording varies).\<close>

definition undefined_sub_message :: string where
  "undefined_sub_message =
     ''Cannot read property '' @ [CHR 0x27] @ ''sub'' @ [CHR 0x27] @ '' of undefined''"

text \<open>
  The last handler of \<open>'/:user'\<close>: \<open>user\<close> is \<open>req.params.user\<close>, \<open>req_user\<close> is \<open>req.user\<close>.
  With \<open>req.user\<close> undefined, reading \<open>req.user.sub\<close> throws a \<open>TypeError\<close> before anything
  is sent. \<open>!==\<close> holds unless the subject is that very string.
\<close>

definition subject_check ::
  "'n platform \<Rightarrow> string \<Rightarrow> 'n payload option \<Rightarrow> error + ('n, 'r) outcome" where
  "subject_check P user req_user =
     (case req_user of
        None \<Rightarrow> Inl (Error ''TypeError'' undefined_sub_message)
      | Some u \<Rightarrow>
          Inr \<lparr>response =
                 (if sub u \<noteq> Some (JString user)
                    then Some \<lparr>status = 401,
                               sent = JsonText (template (number_text P) (sub u)
                                                  @ '' has no permission for this resource'')\<rparr>
                  else None),
               control = Next\<rparr>)"

text \<open>
  The three handlers of \<open>'/:user'\<close> in a row. An error that \<open>ExpressJWT\<close> passes to \<open>next\<close>
  goes to the error handler. After its \<open>next()\<close> the subject check runs; an exception it
  throws is caught by Express and passed on as \<open>next(err)\<close>, and no error handler follows.
\<close>

definition user_guard ::
  "'n platform \<Rightarrow> bytes \<Rightarrow> string \<Rightarrow> 'n request \<Rightarrow> ('n, 'r) outcome" where
  "user_guard P secret user req =
     (case ExpressJWT P secret req of
        Inl err \<Rightarrow> jwt_error err
      | Inr req_user \<Rightarrow>
          (case subject_check P user req_user of
             Inl err \<Rightarrow> \<lparr>response = None, control = NextError err\<rparr>
           | Inr out \<Rightarrow> out))"

text \<open>
  Routing. Express compares a route's path without regard to the case of ASCII letters.
  The routes are tried in the order they were added: \<open>post('/')\<close>, \<open>post('/authorize')\<close>,
  \<open>all('/authorize')\<close> and, once added, \<open>use('/:user')\<close>, which takes every path with a first
  segment and decodes that segment into \<open>req.params.user\<close>; a segment that cannot be decoded
  leaves the router through \<open>next(err)\<close>. A request no route takes leaves the router
  through \<open>next()\<close>. The handlers of
  the first three routes never call \<open>next\<close>, so no request with the path \<open>/authorize\<close> comes
  as far as the guard, and its exemption \<open>unless('/authorize')\<close> has nothing to exempt.
\<close>

definition ascii_lower :: "char \<Rightarrow> char" where
  "ascii_lower c = (if upper c then char_of (of_char c + (32::nat)) else c)"

definition is_authorize :: "string list \<Rightarrow> bool" where
  "is_authorize p = (case p of [seg] \<Rightarrow> map ascii_lower seg = ''authorize'' | _ \<Rightarrow> False)"

definition handle ::
  "'n platform \<Rightarrow> ('n, 'db, 'r, 'u) router \<Rightarrow> 'n request \<Rightarrow> 'db world
     \<Rightarrow> ('n, 'r) outcome \<times> 'db world" where
  "handle P R req w =
     (if http_method req = ''POST'' \<and> path req = [] then
        (case middleware req of
           Some res \<Rightarrow> (\<lparr>response = Some res, control = Ended\<rparr>, w)
         | None \<Rightarrow> post_root R req w)
      else if http_method req = ''POST'' \<and> is_authorize (path req) then
        (case middleware req of
           Some res \<Rightarrow> (\<lparr>response = Some res, control = Ended\<rparr>, w)
         | None \<Rightarrow> post_authorize P R req w)
      else if is_authorize (path req) then (all_authorize req, w)
      else
        (case path req of
           [] \<Rightarrow> (\<lparr>response = None, control = Next\<rparr>, w)
         | seg # rest \<Rightarrow>
             (case guard R of
                None \<Rightarrow> (\<lparr>response = None, control = Next\<rparr>, w)
              | Some secret \<Rightarrow>
                  (case decode_param P seg of
                     Inl err \<Rightarrow> (\<lparr>response = None, control = NextError err\<rparr>, w)
                   | Inr user \<Rightarrow> (user_guard P secret user req, w)))))"

section \<open>Example data\<close>

text \<open>
  A platform, a collection over a list of stored credentials, and the requests of the
  scenarios, for evaluating the definitions.
\<close>

definition example_platform :: "unit platform" where
  "example_platform =
     \<lparr>path_join = (\<lambda>a b. a @ ''/'' @ b),
      path_dirname = (\<lambda>p. ''secrets''),
      hmac = (\<lambda>key p. map (\<lambda>b. b + of_nat (length (aud p))) key),
      number_text = (\<lambda>n. ''0''),
      number_json = (\<lambda>n. ''0''),
      decode_param = Inr\<rparr>"

definition example_collection :: "(unit, unit json list, nat, unit json) collection" where
  "example_collection =
     \<lparr>insertOne = (\<lambda>doc d. (Fulfilled (length d), d @ [doc])),
      findOne = (\<lambda>query d. (Fulfilled (find (\<lambda>doc. doc = query) d), d)),
      collectionName = ''users''\<rparr>"

definition alice :: "unit json" where
  "alice = JObject [(''username'', JString ''alice_1''), (''password'', JString ''Abcdef1!'')]"

definition carol :: "unit json" where
  "carol = JObject [(''username'', JString ''carol_3''), (''password'', JString ''Xyzxyz9?'')]"

definition example_world :: "unit json list world" where
  "example_world = \<lparr>db = [alice], files = Map.empty, dirs = {}, entropy = of_nat, drawn = 0\<rparr>"

definition example_secret :: bytes where
  "example_secret = map of_nat [0..<256]"

definition example_router :: "(unit, unit json list, nat, unit json) router" where
  "example_router =
     \<lparr>collectionPromise = Fulfilled example_collection, secretsDir = ''secrets'',
      guard = Some example_secret\<rparr>"

definition post_request :: "string list \<Rightarrow> unit json \<Rightarrow> unit request" where
  "post_request p b =
     \<lparr>http_method = ''POST'', path = p, body = b, authorization = None,
      access_control_request_headers = None\<rparr>"

definition put_authorize :: "unit request" where
  "put_authorize =
     \<lparr>http_method = ''PUT'', path = [''authorize''], body = JObject [], authorization = None,
      access_control_request_headers = None\<rparr>"

definition bob_token :: "unit token" where
  "bob_token =
     JWT_sign example_platform
       \<lparr>aud = ''users'', sub = Some (JString ''bob_2''),
        context_user = JObject [(''username'', JString ''bob_2''), (''password'', JString ''Abcdef1!'')]\<rparr>
       example_secret"

definition get_alice_profile :: "unit request" where
  "get_alice_profile =
     \<lparr>http_method = ''GET'', path = [''alice_1'', ''profile''], body = JObject [],
      authorization = Some bob_token, access_control_request_headers = None\<rparr>"

text \<open>A preflight for the same path, carrying the same token.\<close>

definition options_alice_profile :: "unit request" where
  "options_alice_profile =
     \<lparr>http_method = ''OPTIONS'', path = [''alice_1'', ''profile''], body = JObject [],
      authorization = Some bob_token,
      access_control_request_headers = Some ''content-type, authorization''\<rparr>"

section \<open>Properties of credentials.js\<close>

lemmas class_defs = upper_def lower_def digit_def special_class_def char_range_def dot_def

lemmas validate_defs =
  validate_def validate_property_def get_property_def USERNAME_PATTERN_def PASSWORD_REGEX_def

lemma lookahead_list_ex: "list_all dot s \<Longrightarrow> lookahead cls s = list_ex cls s"
  by (induction s) auto

lemma lookahead_mono: "(\<And>c. p c \<Longrightarrow> q c) \<Longrightarrow> lookahead p s \<Longrightarrow> lookahead q s"
  by (induction s) auto

text \<open>Every uppercase letter and every digit lies in the range \<open>)-_\<close> of the fourth class.\<close>

lemma upper_special_class: "upper c \<Longrightarrow> special_class c"
  by (auto simp: class_defs)

lemma digit_special_class: "digit c \<Longrightarrow> special_class c"
  by (auto simp: class_defs)

text \<open>
  So the fourth lookahead never decides: the pattern holds of exactly the strings of at
  least eight characters, none of them a line terminator, with an uppercase letter, a
  lowercase letter and a digit.
\<close>

lemma PASSWORD_REGEX_iff:
  "PASSWORD_REGEX s \<longleftrightarrow>
     8 \<le> length s \<and> list_all dot s \<and> list_ex upper s \<and> list_ex lower s \<and> list_ex digit s"
  unfolding PASSWORD_REGEX_def
  using lookahead_list_ex[of s] lookahead_mono[of upper special_class s] upper_special_class
  by auto

lemma validate_object_iff:
  "validate (JObject kvs) = Inr () \<longleftrightarrow>
     (\<exists>u pw. map_of kvs ''username'' = Some (JString u) \<and> USERNAME_PATTERN u \<and>
             map_of kvs ''password'' = Some (JString pw) \<and> PASSWORD_REGEX pw)"
  by (auto simp: validate_def validate_property_def get_property_def
           split: option.splits json.splits if_splits)

lemma validate_password_tag:
  assumes "map_of kvs ''username'' = Some (JString u)" and "USERNAME_PATTERN u"
    and "map_of kvs ''password'' = Some v" and "\<forall>pw. v = JString pw \<longrightarrow> \<not> PASSWORD_REGEX pw"
  shows "\<exists>e. validate (JObject kvs) = Inl e \<and> property e = ''instance.password''"
  using assms
  by (auto simp: validate_def validate_property_def get_property_def
           split: option.splits json.splits if_splits)

lemma middleware_passes: "validate (body req) = Inr () \<Longrightarrow> middleware req = None"
  by (simp add: middleware_def)

text \<open>
  C1 (the password rule of \<open>validate\<close>: length at least 8, an uppercase letter, a lowercase
  letter, a digit and a character of the special-character set). The pattern does not
  enforce the last requirement: the credentials with username \<open>alice_1\<close> and password
  \<open>Abcdefg1\<close> are accepted, although the password contains none of the characters listed in
  the special class.
\<close>

theorem validate_accepts_password_without_special_char:
  "validate (JObject [(''username'', JString ''alice_1''), (''password'', JString ''Abcdefg1'')])
     = Inr () \<and>
   \<not> list_ex (\<lambda>c. c \<in> set special_chars) ''Abcdefg1''"
  by (simp add: validate_defs class_defs special_chars_def)

text \<open>
  A password that meets the stated rule and contains a line feed is rejected, with the
  field tag of the password.
\<close>

lemma validate_rejects_line_terminator:
  "validate (JObject [(''username'', JString ''alice_1''),
                      (''password'', JString (''Abcdef1!'' @ [CHR 0x0A]))])
     = Inl (ValidationError ''instance.password'' ''pattern'')"
  by (simp add: validate_defs class_defs)

text \<open>
  C5, as the specification states it (a missing field or a field that is not a string fails
  with the generic error), does not hold: a password that is not a string is reported at
  the path of the password and gets the password's message, and with the password missing
  a malformed username still gets the username's message, since \<open>properties\<close> is checked
  before \<open>required\<close>.
\<close>

theorem middleware_wrong_type_counterexample:
  "(middleware (post_request []
       (JObject [(''username'', JString ''alice_1''), (''password'', JBool True)]))
      :: (unit, nat) response option)
     = Some \<lparr>status = 400, sent = JsonText password_message\<rparr> \<and>
   (middleware (post_request [] (JObject [(''username'', JString ''Bad User'')]))
      :: (unit, nat) response option)
     = Some \<lparr>status = 400, sent = JsonText username_message\<rparr> \<and>
   password_message \<noteq> generic_message \<and> username_message \<noteq> generic_message"
  by (simp add: middleware_def post_request_def validate_defs class_defs
        password_message_def username_message_def generic_message_def)

text \<open>
  C5, amended. For a credentials object: when \<open>username\<close> or \<open>password\<close> is missing and
  whichever of the two is present conforms to its pattern, the middleware answers 400 with
  the generic message; a \<open>username\<close> that is present and not a string gets the username's
  message; a \<open>password\<close> that is present and not a string gets the password's message,
  provided the username is missing or conforms.
\<close>

theorem middleware_missing_or_mistyped_field:
  assumes "body req = JObject kvs"
  shows
    "((map_of kvs ''username'' = None \<and>
         (map_of kvs ''password'' = None \<or>
          (\<exists>pw. map_of kvs ''password'' = Some (JString pw) \<and> PASSWORD_REGEX pw)) \<or>
       map_of kvs ''password'' = None \<and>
         (\<exists>u. map_of kvs ''username'' = Some (JString u) \<and> USERNAME_PATTERN u))
      \<longrightarrow> middleware req = Some \<lparr>status = 400, sent = JsonText generic_message\<rparr>) \<and>
     ((\<exists>v. map_of kvs ''username'' = Some v \<and> (\<forall>s. v \<noteq> JString s))
      \<longrightarrow> middleware req = Some \<lparr>status = 400, sent = JsonText username_message\<rparr>) \<and>
     ((map_of kvs ''username'' = None \<or>
         (\<exists>u. map_of kvs ''username'' = Some (JString u) \<and> USERNAME_PATTERN u)) \<and>
       (\<exists>v. map_of kvs ''password'' = Some v \<and> (\<forall>s. v \<noteq> JString s))
      \<longrightarrow> middleware req = Some \<lparr>status = 400, sent = JsonText password_message\<rparr>)"
proof (intro conjI impI)
  assume "map_of kvs ''username'' = None \<and>
         (map_of kvs ''password'' = None \<or>
          (\<exists>pw. map_of kvs ''password'' = Some (JString pw) \<and> PASSWORD_REGEX pw)) \<or>
       map_of kvs ''password'' = None \<and>
         (\<exists>u. map_of kvs ''username'' = Some (JString u) \<and> USERNAME_PATTERN u)"
  then have "validate (body req) = Inl (ValidationError ''instance'' ''required'')"
    using assms by (auto simp: validate_def validate_property_def get_property_def)
  then show "middleware req = Some \<lparr>status = 400, sent = JsonText generic_message\<rparr>"
    by (simp add: middleware_def)
next
  assume "\<exists>v. map_of kvs ''username'' = Some v \<and> (\<forall>s. v \<noteq> JString s)"
  then have "validate (body req) = Inl (ValidationError ''instance.username'' ''type'')"
    using assms
    by (auto simp: validate_def validate_property_def get_property_def split: json.splits)
  then show "middleware req = Some \<lparr>status = 400, sent = JsonText username_message\<rparr>"
    by (simp add: middleware_def)
next
  assume "(map_of kvs ''username'' = None \<or>
         (\<exists>u. map_of kvs ''username'' = Some (JString u) \<and> USERNAME_PATTERN u)) \<and>
       (\<exists>v. map_of kvs ''password'' = Some v \<and> (\<forall>s. v \<noteq> JString s))"
  then have "validate (body req) = Inl (ValidationError ''instance.password'' ''type'')"
    using assms
    by (auto simp: validate_def validate_property_def get_property_def split: json.splits)
  then show "middleware req = Some \<lparr>status = 400, sent = JsonText password_message\<rparr>"
    by (simp add: middleware_def)
qed

theorem middleware_missing_or_mistyped_field_witness:
  "(middleware (post_request [] (JObject [(''username'', JString ''alice_1'')]))
      :: (unit, nat) response option)
     = Some \<lparr>status = 400, sent = JsonText generic_message\<rparr> \<and>
   (middleware (post_request [] (JObject [(''username'', JNull), (''password'', JNull)]))
      :: (unit, nat) response option)
     = Some \<lparr>status = 400, sent = JsonText username_message\<rparr> \<and>
   (middleware (post_request [] (JObject [(''password'', JArray [])]))
      :: (unit, nat) response option)
     = Some \<lparr>status = 400, sent = JsonText password_message\<rparr>"
proof -
  let ?a = "[(''username'', JString ''alice_1'')] :: (string \<times> unit json) list"
  let ?b = "[(''username'', JNull), (''password'', JNull)] :: (string \<times> unit json) list"
  let ?c = "[(''password'', JArray [])] :: (string \<times> unit json) list"
  have user: "USERNAME_PATTERN ''alice_1''"
    by (simp add: USERNAME_PATTERN_def class_defs)
  have a: "body (post_request [] (JObject ?a)) = JObject ?a"
    and b: "body (post_request [] (JObject ?b)) = JObject ?b"
    and c: "body (post_request [] (JObject ?c)) = JObject ?c"
    by (simp_all add: post_request_def)
  show ?thesis
    using middleware_missing_or_mistyped_field[OF a, where 'b = nat]
      middleware_missing_or_mistyped_field[OF b, where 'b = nat]
      middleware_missing_or_mistyped_field[OF c, where 'b = nat] user
    by simp
qed

section \<open>Properties of index.js\<close>

subsection \<open>The secret of a namespace\<close>

lemmas fs_defs =
  getRandomBytesFrom_def mkdirp_sync_def readFileSync_def writeFileSync_def randomBytes_def

lemma getRandomBytesFrom_stored:
  assumes "getRandomBytesFrom P secretPath w = (Inr secret, w1)"
  shows "files w1 secretPath = Some secret"
  using assms
  by (auto simp: fs_defs split: if_splits option.splits prod.splits)

lemma getRandomBytesFrom_fixed:
  assumes "getRandomBytesFrom P secretPath w = (Inr secret, w1)"
  shows "getRandomBytesFrom P secretPath w1 = (Inr secret, w1)"
  using assms
  by (auto simp: fs_defs insert_absorb domIff split: if_splits option.splits prod.splits)

text \<open>A call that finds the file returns its bytes, draws no random bytes and writes nothing.\<close>

lemma getRandomBytesFrom_reads:
  assumes "files w secretPath = Some secret" and "path_dirname P secretPath \<notin> dom (files w)"
  shows "getRandomBytesFrom P secretPath w =
           (Inr secret, w\<lparr>dirs := insert (path_dirname P secretPath) (dirs w)\<rparr>)"
  using assms by (auto simp: fs_defs)

text \<open>
  C2. When a call of \<open>getRandomBytesFrom\<close> for a path has returned a secret, the next call
  for the same path returns the same bytes and leaves the world as it found it, so that
  every later call does the same; the bytes are those stored in the file.
\<close>

theorem getRandomBytesFrom_twice:
  assumes "getRandomBytesFrom P secretPath w = (Inr secret, w1)"
  shows "getRandomBytesFrom P secretPath w1 = (Inr secret, w1) \<and>
         files w1 secretPath = Some secret"
  using assms getRandomBytesFrom_fixed[OF assms] getRandomBytesFrom_stored[OF assms]
  by simp

lemma example_first_call:
  "getRandomBytesFrom example_platform ''secrets/users'' example_world =
     (Inr example_secret,
      example_world\<lparr>dirs := {''secrets''}, drawn := 256,
                     files := [''secrets/users'' \<mapsto> example_secret]\<rparr>)"
  by (simp add: fs_defs example_platform_def example_world_def example_secret_def)

theorem getRandomBytesFrom_twice_witness:
  "getRandomBytesFrom example_platform ''secrets/users'' example_world =
     (Inr example_secret,
      example_world\<lparr>dirs := {''secrets''}, drawn := 256,
                     files := [''secrets/users'' \<mapsto> example_secret]\<rparr>) \<and>
   getRandomBytesFrom example_platform ''secrets/users''
      (example_world\<lparr>dirs := {''secrets''}, drawn := 256,
                      files := [''secrets/users'' \<mapsto> example_secret]\<rparr>) =
     (Inr example_secret,
      example_world\<lparr>dirs := {''secrets''}, drawn := 256,
                     files := [''secrets/users'' \<mapsto> example_secret]\<rparr>)"
  using getRandomBytesFrom_twice[OF example_first_call] example_first_call by simp

subsection \<open>authorize\<close>

lemma authorize_no_user:
  assumes "findOne c credentials (db w) = (Fulfilled None, d)"
  shows "authorize P (Fulfilled c) dir credentials w =
           (Rejected (Error ''Error'' (no_user_message P credentials)), w\<lparr>db := d\<rparr>)"
  using assms by (simp add: authorize_def)

lemma authorize_signs:
  assumes "findOne c credentials (db w) = (Fulfilled (Some user), d)"
    and "getRandomBytesFrom P (path_join P dir (collectionName c)) (w\<lparr>db := d\<rparr>)
           = (Inr secret, w1)"
  shows "authorize P (Fulfilled c) dir credentials w =
           (Fulfilled
              (JWT_sign P
                 \<lparr>aud = collectionName c, sub = get_property credentials ''username'',
                  context_user = credentials\<rparr>
                 secret),
            w1)"
  using assms by (simp add: authorize_def)

lemma JWT_verify_sign: "JWT_verify P secret (JWT_sign P p secret) = Inr p"
  by (simp add: JWT_verify_def JWT_sign_def)

text \<open>
  C3. For valid credentials with username \<open>u\<close> that the collection finds, and a secret that
  can be read or created, \<open>authorize\<close> resolves to a token; the secret of the namespace
  (what \<open>getRandomBytesFrom\<close> returns for the same path afterwards) verifies it, and the
  verified claims have subject \<open>u\<close> and the collection's name as audience.
\<close>

theorem authorize_token_round_trip:
  assumes "validate credentials = Inr ()"
    and "get_property credentials ''username'' = Some (JString u)"
    and "findOne c credentials (db w) = (Fulfilled (Some user), d)"
    and "getRandomBytesFrom P (path_join P dir (collectionName c)) (w\<lparr>db := d\<rparr>)
           = (Inr secret, w1)"
  shows "\<exists>t p. authorize P (Fulfilled c) dir credentials w = (Fulfilled t, w1) \<and>
               getRandomBytesFrom P (path_join P dir (collectionName c)) w1 = (Inr secret, w1) \<and>
               JWT_verify P secret t = Inr p \<and>
               sub p = Some (JString u) \<and> aud p = collectionName c"
proof -
  let ?p = "\<lparr>aud = collectionName c, sub = get_property credentials ''username'',
             context_user = credentials\<rparr>"
  have "authorize P (Fulfilled c) dir credentials w = (Fulfilled (JWT_sign P ?p secret), w1)"
    using assms(3,4) by (rule authorize_signs)
  moreover have "getRandomBytesFrom P (path_join P dir (collectionName c)) w1 = (Inr secret, w1)"
    using assms(4) by (rule getRandomBytesFrom_fixed)
  moreover have "JWT_verify P secret (JWT_sign P ?p secret) = Inr ?p"
    by (rule JWT_verify_sign)
  moreover have "sub ?p = Some (JString u)" "aud ?p = collectionName c"
    using assms(2) by simp_all
  ultimately show ?thesis by blast
qed

lemma alice_valid: "validate alice = Inr ()"
  by (simp add: alice_def validate_defs class_defs)

lemma alice_found:
  "findOne example_collection alice (db example_world) = (Fulfilled (Some alice), [alice])"
  by (simp add: example_collection_def example_world_def)

lemma example_world_db: "example_world\<lparr>db := [alice]\<rparr> = example_world"
  by (simp add: example_world_def)

theorem authorize_token_round_trip_witness:
  "validate alice = Inr () \<and>
   get_property alice ''username'' = Some (JString ''alice_1'') \<and>
   (\<exists>t p w1. authorize example_platform (Fulfilled example_collection) ''secrets'' alice
                example_world = (Fulfilled t, w1) \<and>
             getRandomBytesFrom example_platform ''secrets/users'' w1 = (Inr example_secret, w1) \<and>
             JWT_verify example_platform example_secret t = Inr p \<and>
             sub p = Some (JString ''alice_1'') \<and> aud p = ''users'')"
proof -
  have name: "get_property alice ''username'' = Some (JString ''alice_1'')"
    by (simp add: alice_def get_property_def)
  have cname: "collectionName example_collection = ''users''"
    by (simp add: example_collection_def)
  have join: "path_join example_platform ''secrets'' ''users'' = ''secrets/users''"
    by (simp add: example_platform_def)
  have secret:
    "getRandomBytesFrom example_platform
        (path_join example_platform ''secrets'' (collectionName example_collection))
        (example_world\<lparr>db := [alice]\<rparr>) =
     (Inr example_secret,
      example_world\<lparr>dirs := {''secrets''}, drawn := 256,
                     files := [''secrets/users'' \<mapsto> example_secret]\<rparr>)"
    unfolding cname join example_world_db by (rule example_first_call)
  show ?thesis
    using authorize_token_round_trip[OF alice_valid name alice_found secret] alice_valid name
    unfolding cname join by blast
qed

subsection \<open>The routes\<close>

lemma is_authorize_not_root: "is_authorize p \<Longrightarrow> p \<noteq> []"
  by (auto simp: is_authorize_def)

lemma is_authorize_literal: "is_authorize [''authorize'']"
  by (simp add: is_authorize_def ascii_lower_def class_defs)

lemma post_authorize_no_user:
  assumes "validate (body req) = Inr ()"
    and "http_method req = ''POST''" and "is_authorize (path req)"
    and "collectionPromise R = Fulfilled c"
    and "findOne c (body req) (db w) = (Fulfilled None, d)"
  shows "handle P R req w =
           (\<lparr>response = Some \<lparr>status = 403, sent = JsonText (no_user_message P (body req))\<rparr>,
             control = Ended\<rparr>,
            w\<lparr>db := d\<rparr>)"
  using assms is_authorize_not_root[OF assms(3)]
  by (simp add: handle_def post_authorize_def authorize_no_user middleware_passes)

text \<open>
  C4. For a \<open>POST /authorize\<close> with valid credentials for which \<open>findOne\<close> resolves to no
  record, \<open>authorize\<close> is rejected and the router answers 403 with the rejection's message,
  which begins \<open>No user was found for the credentials: \<close>.
\<close>

theorem authorize_no_user_403:
  assumes "validate (body req) = Inr ()"
    and "http_method req = ''POST''" and "is_authorize (path req)"
    and "collectionPromise R = Fulfilled c"
    and "findOne c (body req) (db w) = (Fulfilled None, d)"
  shows "\<exists>msg. authorize P (collectionPromise R) (secretsDir R) (body req) w =
                 (Rejected (Error ''Error'' msg), w\<lparr>db := d\<rparr>) \<and>
               handle P R req w =
                 (\<lparr>response = Some \<lparr>status = 403, sent = JsonText msg\<rparr>, control = Ended\<rparr>,
                  w\<lparr>db := d\<rparr>) \<and>
               prefix ''No user was found for the credentials: '' msg"
proof -
  have "authorize P (collectionPromise R) (secretsDir R) (body req) w =
          (Rejected (Error ''Error'' (no_user_message P (body req))), w\<lparr>db := d\<rparr>)"
    using assms(4,5) by (simp add: authorize_no_user)
  moreover have "handle P R req w =
           (\<lparr>response = Some \<lparr>status = 403, sent = JsonText (no_user_message P (body req))\<rparr>,
             control = Ended\<rparr>,
            w\<lparr>db := d\<rparr>)"
    using assms by (rule post_authorize_no_user)
  moreover have "prefix ''No user was found for the credentials: '' (no_user_message P (body req))"
    unfolding no_user_message_def by (rule prefixI) (rule refl)
  ultimately show ?thesis by blast
qed

lemma carol_valid: "validate carol = Inr ()"
  by (simp add: carol_def validate_defs class_defs)

lemma carol_not_found:
  "findOne example_collection carol (db example_world) = (Fulfilled None, [alice])"
  by (simp add: example_collection_def example_world_def alice_def carol_def)

lemma post_request_simps:
  "http_method (post_request p b) = ''POST''" "path (post_request p b) = p"
  "body (post_request p b) = b" "authorization (post_request p b) = None"
  by (simp_all add: post_request_def)

lemma example_router_simps:
  "collectionPromise example_router = Fulfilled example_collection"
  "secretsDir example_router = ''secrets''" "guard example_router = Some example_secret"
  by (simp_all add: example_router_def)

theorem authorize_no_user_403_witness:
  "validate carol = Inr () \<and>
   findOne example_collection carol (db example_world) = (Fulfilled None, [alice]) \<and>
   (\<exists>msg. handle example_platform example_router (post_request [''authorize''] carol)
             example_world =
             (\<lparr>response = Some \<lparr>status = 403, sent = JsonText msg\<rparr>, control = Ended\<rparr>,
              example_world) \<and>
          prefix ''No user was found for the credentials: '' msg)"
proof -
  let ?req = "post_request [''authorize''] carol"
  have v: "validate (body ?req) = Inr ()"
    by (simp add: post_request_simps carol_valid)
  have m: "http_method ?req = ''POST''" by (simp add: post_request_simps)
  have a: "is_authorize (path ?req)" by (simp add: post_request_simps is_authorize_literal)
  have f: "findOne example_collection (body ?req) (db example_world) = (Fulfilled None, [alice])"
    by (simp add: post_request_simps carol_not_found)
  show ?thesis
    using authorize_no_user_403[OF v m a example_router_simps(1) f, of example_platform]
      carol_valid carol_not_found
    unfolding example_world_db by blast
qed

text \<open>
  C7. A \<open>POST /\<close> or \<open>POST /authorize\<close> whose body fails validation is answered 400 by the
  middleware and ends there: the world (the collection's database, the files and
  directories, the random source) is the one the request found, whatever \<open>insertOne\<close> and
  \<open>findOne\<close> would have done to it.
\<close>

theorem invalid_credentials_touch_nothing:
  assumes "validate (body req) = Inl e"
    and "http_method req = ''POST''"
    and "path req = [] \<or> is_authorize (path req)"
  shows "\<exists>res. handle P R req w = (\<lparr>response = Some res, control = Ended\<rparr>, w) \<and>
               status res = 400"
  using assms by (auto simp: handle_def middleware_def)

theorem invalid_credentials_touch_nothing_witness:
  "validate (JObject [(''username'', JString ''bad user''), (''password'', JString ''x'')]
      :: unit json)
     = Inl (ValidationError ''instance.username'' ''pattern'') \<and>
   handle example_platform example_router
      (post_request [] (JObject [(''username'', JString ''bad user''), (''password'', JString ''x'')]))
      example_world =
     (\<lparr>response = Some \<lparr>status = 400, sent = JsonText username_message\<rparr>, control = Ended\<rparr>,
      example_world)"
proof -
  let ?b = "JObject [(''username'', JString ''bad user''), (''password'', JString ''x'')] :: unit json"
  have v: "validate ?b = Inl (ValidationError ''instance.username'' ''pattern'')"
    by (simp add: validate_defs class_defs)
  then have v': "validate (body (post_request [] ?b))
                   = Inl (ValidationError ''instance.username'' ''pattern'')"
    by (simp add: post_request_simps)
  have m: "(middleware (post_request [] ?b) :: (unit, nat) response option)
             = Some \<lparr>status = 400, sent = JsonText username_message\<rparr>"
    using v' by (simp add: middleware_def)
  have "\<exists>res. handle example_platform example_router (post_request [] ?b) example_world
                = (\<lparr>response = Some res, control = Ended\<rparr>, example_world) \<and> status res = 400"
    by (rule invalid_credentials_touch_nothing[OF v']) (simp_all add: post_request_simps)
  moreover have "handle example_platform example_router (post_request [] ?b) example_world
                   = (\<lparr>response = middleware (post_request [] ?b), control = Ended\<rparr>,
                      example_world)"
    using m by (simp add: handle_def post_request_simps)
  ultimately show ?thesis using v m by simp
qed

text \<open>
  C8. A request to \<open>/authorize\<close> with a method other than \<open>POST\<close> is answered 400 with the
  message \<open>Cannot <method> /authorize, use POST instead\<close>.
\<close>

theorem authorize_other_method_400:
  assumes "http_method req \<noteq> ''POST''" and "is_authorize (path req)"
  shows "handle P R req w =
           (\<lparr>response =
               Some \<lparr>status = 400,
                     sent = JsonText (''Cannot '' @ http_method req
                                        @ '' /authorize, use POST instead'')\<rparr>,
             control = Ended\<rparr>,
            w)"
  using assms by (simp add: handle_def all_authorize_def)

theorem authorize_other_method_400_witness:
  "http_method put_authorize \<noteq> ''POST'' \<and> is_authorize (path put_authorize) \<and>
   handle example_platform example_router put_authorize example_world =
     (\<lparr>response =
         Some \<lparr>status = 400, sent = JsonText ''Cannot PUT /authorize, use POST instead''\<rparr>,
       control = Ended\<rparr>,
      example_world)"
proof -
  have m: "http_method put_authorize \<noteq> ''POST''" by (simp add: put_authorize_def)
  have a: "is_authorize (path put_authorize)"
    by (simp add: put_authorize_def is_authorize_literal)
  have "http_method put_authorize = ''PUT''" by (simp add: put_authorize_def)
  then show ?thesis
    using authorize_other_method_400[OF m a, of example_platform example_router example_world] m a
    by simp
qed

subsection \<open>The message for unknown credentials\<close>

lemma sublist_between: "sublist xs ys \<Longrightarrow> sublist xs (ps @ ys @ ss)"
proof -
  assume "sublist xs ys"
  then obtain p s where "ys = p @ xs @ s" by (auto simp: sublist_def)
  then have "ps @ ys @ ss = (ps @ p) @ xs @ (s @ ss)" by simp
  then show ?thesis unfolding sublist_def by blast
qed

lemma sublist_join_with: "x \<in> set xs \<Longrightarrow> sublist x (join_with sep xs)"
proof (induction sep xs rule: join_with.induct)
  case (1 sep)
  then show ?case by simp
next
  case (2 sep y)
  then show ?case by simp
next
  case (3 sep y z zs)
  show ?case
  proof (cases "x = y")
    case True
    then show ?thesis by simp
  next
    case False
    with 3 have "sublist x (join_with sep (z # zs))" by simp
    then have "sublist x ((y @ sep) @ join_with sep (z # zs) @ [])" by (rule sublist_between)
    then show ?thesis by simp
  qed
qed

text \<open>The text of an object contains, for each of its properties, the quoted key, a colon
  and the text of the value.\<close>

lemma sublist_stringify_property:
  assumes "map_of kvs key = Some v"
  shows "sublist (quote key @ '':'' @ JSON_stringify num v) (JSON_stringify num (JObject kvs))"
proof -
  let ?f = "\<lambda>kv. quote (fst kv) @ '':'' @ JSON_stringify num (snd kv)"
  have "(key, v) \<in> set kvs" using assms by (rule map_of_SomeD)
  then have "?f (key, v) \<in> ?f ` set kvs" by (rule imageI)
  then have "?f (key, v) \<in> set (map ?f kvs)" by simp
  then have "sublist (?f (key, v)) (join_with '','' (map ?f kvs))" by (rule sublist_join_with)
  then have "sublist (?f (key, v)) (''{'' @ join_with '','' (map ?f kvs) @ ''}'')"
    by (rule sublist_between)
  then show ?thesis by simp
qed

text \<open>A string without a character that \<open>JSON.stringify\<close> escapes is quoted as it is.\<close>

lemma quote_plain:
  assumes "list_all (\<lambda>c. escape c = [c]) s"
  shows "quote s = CHR 0x22 # s @ [CHR 0x22]"
proof -
  have "concat (map escape s) = s" using assms by (induction s) auto
  then show ?thesis by (simp add: quote_def)
qed

lemma sublist_quote_plain:
  assumes "list_all (\<lambda>c. escape c = [c]) s"
  shows "sublist s (quote s)"
proof -
  have "sublist s ([CHR 0x22] @ s @ [CHR 0x22])" by (rule sublist_appendI)
  then show ?thesis using assms by (simp add: quote_plain)
qed

text \<open>
  C9. When the credentials of a \<open>POST /authorize\<close> pass validation and \<open>findOne\<close> resolves to
  no record, the body of the 403 response is the fixed prefix followed by
  \<open>JSON.stringify(credentials)\<close>. That text contains the property \<open>"password":\<close> followed by
  the quoted password, and the password itself whenever none of its characters needs an
  escape.
\<close>

theorem no_user_response_embeds_credentials:
  assumes "body req = JObject kvs"
    and "validate (body req) = Inr ()"
    and "http_method req = ''POST''" and "is_authorize (path req)"
    and "collectionPromise R = Fulfilled c"
    and "findOne c (body req) (db w) = (Fulfilled None, d)"
  shows "\<exists>pw msg. map_of kvs ''password'' = Some (JString pw) \<and>
           response (fst (handle P R req w)) = Some \<lparr>status = 403, sent = JsonText msg\<rparr> \<and>
           msg = ''No user was found for the credentials: ''
                   @ JSON_stringify (number_json P) (body req) \<and>
           sublist (quote ''password'' @ '':'' @ quote pw) msg \<and>
           (list_all (\<lambda>c. escape c = [c]) pw \<longrightarrow> sublist pw msg)"
proof -
  let ?msg = "''No user was found for the credentials: ''
                @ JSON_stringify (number_json P) (body req)"
  let ?entry = "\<lambda>pw. quote ''password'' @ '':'' @ quote pw"
  from assms(1,2) obtain pw where pw: "map_of kvs ''password'' = Some (JString pw)"
    using validate_object_iff[of kvs] by auto
  have "handle P R req w =
           (\<lparr>response = Some \<lparr>status = 403, sent = JsonText (no_user_message P (body req))\<rparr>,
             control = Ended\<rparr>,
            w\<lparr>db := d\<rparr>)"
    using assms(2-6) by (rule post_authorize_no_user)
  then have res: "response (fst (handle P R req w)) = Some \<lparr>status = 403, sent = JsonText ?msg\<rparr>"
    by (simp add: no_user_message_def)
  have "sublist (quote ''password'' @ '':'' @ JSON_stringify (number_json P) (JString pw))
          (JSON_stringify (number_json P) (JObject kvs))"
    using pw by (rule sublist_stringify_property)
  then have "sublist (?entry pw) (JSON_stringify (number_json P) (body req))"
    using assms(1) by simp
  then have "sublist (?entry pw)
               (''No user was found for the credentials: ''
                  @ JSON_stringify (number_json P) (body req) @ [])"
    by (rule sublist_between)
  then have entry: "sublist (?entry pw) ?msg" by simp
  have plain: "sublist pw ?msg" if "list_all (\<lambda>c. escape c = [c]) pw"
  proof -
    have "sublist pw (quote pw)" using that by (rule sublist_quote_plain)
    then have "sublist pw ((quote ''password'' @ '':'') @ quote pw @ [])"
      by (rule sublist_between)
    then have "sublist pw (?entry pw)" by simp
    then show ?thesis using entry sublist_order.order_trans by blast
  qed
  show ?thesis using pw res entry plain by blast
qed

theorem no_user_response_embeds_credentials_witness:
  "validate carol = Inr () \<and>
   findOne example_collection carol (db example_world) = (Fulfilled None, [alice]) \<and>
   (\<exists>msg. response (fst (handle example_platform example_router
                           (post_request [''authorize''] carol) example_world))
             = Some \<lparr>status = 403, sent = JsonText msg\<rparr> \<and>
          sublist ''Xyzxyz9?'' msg)"
proof -
  let ?req = "post_request [''authorize''] carol"
  let ?kvs = "[(''username'', JString ''carol_3''), (''password'', JString ''Xyzxyz9?'')]
                :: (string \<times> unit json) list"
  have b: "body ?req = JObject ?kvs" by (simp add: post_request_simps carol_def)
  have v: "validate (body ?req) = Inr ()" by (simp add: post_request_simps carol_valid)
  have m: "http_method ?req = ''POST''" by (simp add: post_request_simps)
  have a: "is_authorize (path ?req)" by (simp add: post_request_simps is_authorize_literal)
  have f: "findOne example_collection (body ?req) (db example_world) = (Fulfilled None, [alice])"
    by (simp add: post_request_simps carol_not_found)
  have plain: "list_all (\<lambda>c. escape c = [c]) ''Xyzxyz9?''"
    by (simp add: escape_def)
  show ?thesis
    using no_user_response_embeds_credentials
            [OF b v m a example_router_simps(1) f, of example_platform]
      plain carol_valid carol_not_found
    by auto
qed

subsection \<open>The guard of the per-user paths\<close>

lemma ExpressJWT_verified:
  assumes "\<not> preflight req"
    and "authorization req = Some t" and "JWT_verify P secret t = Inr req_user"
  shows "ExpressJWT P secret req = Inr (Some req_user)"
  using assms by (simp add: ExpressJWT_def)

lemma handle_guarded:
  assumes "guard R = Some secret" and "path req = seg # rest"
    and "\<not> is_authorize (path req)" and "decode_param P seg = Inr user"
  shows "handle P R req w = (user_guard P secret user req, w)"
  using assms by (simp add: handle_def)

text \<open>With \<open>req.user\<close> set, the subject check decides the response and calls \<open>next()\<close>.\<close>

lemma user_guard_verified:
  assumes "ExpressJWT P secret req = Inr (Some req_user)"
  shows "user_guard P secret user req =
           \<lparr>response =
              (if sub req_user \<noteq> Some (JString user)
                 then Some \<lparr>status = 401,
                            sent = JsonText (template (number_text P) (sub req_user)
                                               @ '' has no permission for this resource'')\<rparr>
               else None),
            control = Next\<rparr>"
  using assms by (simp add: user_guard_def subject_check_def)

text \<open>A request without a token that verifies is answered 401 and ends in the router.\<close>

lemma guard_unauthorized:
  assumes "guard R = Some secret" and "path req = seg # rest"
    and "\<not> is_authorize (path req)" and "decode_param P seg = Inr user"
    and "ExpressJWT P secret req = Inl err"
  shows "\<exists>msg. handle P R req w =
                 (\<lparr>response = Some \<lparr>status = 401, sent = PlainText msg\<rparr>, control = Ended\<rparr>, w)"
  using assms
  by (auto simp: handle_def user_guard_def jwt_error_def ExpressJWT_def
           split: option.splits sum.splits if_splits)

text \<open>A token whose subject is the path's user passes without a response.\<close>

lemma guard_owner_passes:
  assumes "guard R = Some secret" and "path req = seg # rest"
    and "\<not> is_authorize (path req)" and "decode_param P seg = Inr user"
    and "ExpressJWT P secret req = Inr (Some req_user)"
    and "sub req_user = Some (JString user)"
  shows "handle P R req w = (\<lparr>response = None, control = Next\<rparr>, w)"
  using assms by (simp add: handle_def user_guard_def subject_check_def)

text \<open>
  A preflight is not verified: the subject check finds \<open>req.user\<close> undefined and throws, so
  that nothing is sent and the error is handed on, whatever token the request carries.
\<close>

lemma guard_preflight_throws:
  assumes "guard R = Some secret" and "path req = seg # rest"
    and "\<not> is_authorize (path req)" and "decode_param P seg = Inr user"
    and "preflight req"
  shows "handle P R req w =
           (\<lparr>response = None, control = NextError (Error ''TypeError'' undefined_sub_message)\<rparr>,
            w)"
  using assms by (simp add: handle_def user_guard_def subject_check_def ExpressJWT_def)

lemma bob_token_verifies:
  "JWT_verify example_platform example_secret bob_token =
     Inr \<lparr>aud = ''users'', sub = Some (JString ''bob_2''),
          context_user =
            JObject [(''username'', JString ''bob_2''), (''password'', JString ''Abcdef1!'')]\<rparr>"
  unfolding bob_token_def by (rule JWT_verify_sign)

lemma example_decode: "decode_param example_platform seg = Inr seg"
  by (simp add: example_platform_def)

lemma get_alice_profile_simps:
  "path get_alice_profile = ''alice_1'' # [''profile'']"
  "authorization get_alice_profile = Some bob_token"
  "\<not> is_authorize (path get_alice_profile)"
  "\<not> preflight get_alice_profile"
  by (simp_all add: get_alice_profile_def is_authorize_def preflight_def)

lemma options_alice_profile_simps:
  "path options_alice_profile = ''alice_1'' # [''profile'']"
  "authorization options_alice_profile = Some bob_token"
  "\<not> is_authorize (path options_alice_profile)"
  "preflight options_alice_profile"
  by (simp_all add: options_alice_profile_def is_authorize_def preflight_def trim_def
        whitespace_def)

lemma options_alice_profile_outcome:
  "handle example_platform example_router options_alice_profile example_world =
     (\<lparr>response = None, control = NextError (Error ''TypeError'' undefined_sub_message)\<rparr>,
      example_world)"
  using example_router_simps(3) options_alice_profile_simps(1) options_alice_profile_simps(3)
    example_decode options_alice_profile_simps(4)
  by (rule guard_preflight_throws)

text \<open>
  C6, as the specification states it (every request to a per-user path with a token that
  verifies and a different subject is answered 401), does not hold for a preflight: the
  \<open>OPTIONS\<close> request to \<open>/alice_1/profile\<close> that lists \<open>authorization\<close> in
  \<open>Access-Control-Request-Headers\<close> and carries a token that verifies, with subject
  \<open>bob_2\<close>, gets no response from the router.
\<close>

theorem guard_preflight_counterexample:
  "path options_alice_profile = [''alice_1'', ''profile''] \<and>
   authorization options_alice_profile = Some bob_token \<and>
   JWT_verify example_platform example_secret bob_token =
     Inr \<lparr>aud = ''users'', sub = Some (JString ''bob_2''),
          context_user =
            JObject [(''username'', JString ''bob_2''), (''password'', JString ''Abcdef1!'')]\<rparr> \<and>
   response (fst (handle example_platform example_router options_alice_profile example_world))
     = None"
  using options_alice_profile_simps(1,2) bob_token_verifies options_alice_profile_outcome
  by simp

text \<open>
  C6, amended. A request to a per-user path that is not such a preflight, whose token
  verifies and whose subject is not the path's user, is answered 401; the message is the
  subject as a template prints it, which for a string is the string itself, followed by
  \<open> has no permission for this resource\<close>.
\<close>

theorem guard_subject_mismatch_401:
  assumes "guard R = Some secret" and "path req = seg # rest"
    and "\<not> is_authorize (path req)" and "decode_param P seg = Inr user"
    and "\<not> preflight req"
    and "authorization req = Some t" and "JWT_verify P secret t = Inr req_user"
    and "sub req_user \<noteq> Some (JString user)"
  shows "\<exists>msg. response (fst (handle P R req w))
                 = Some \<lparr>status = 401, sent = JsonText msg\<rparr> \<and>
               msg = template (number_text P) (sub req_user)
                       @ '' has no permission for this resource'' \<and>
               (\<forall>s. sub req_user = Some (JString s)
                  \<longrightarrow> msg = s @ '' has no permission for this resource'')"
proof -
  have verified: "ExpressJWT P secret req = Inr (Some req_user)"
    using assms(5-7) by (rule ExpressJWT_verified)
  have "handle P R req w = (user_guard P secret user req, w)"
    using assms(1-4) by (rule handle_guarded)
  then have "response (fst (handle P R req w)) =
               Some \<lparr>status = 401,
                     sent = JsonText (template (number_text P) (sub req_user)
                                        @ '' has no permission for this resource'')\<rparr>"
    using assms(8) by (simp add: user_guard_verified[OF verified])
  then show ?thesis by (auto simp: template_def)
qed

theorem guard_subject_mismatch_401_witness:
  "\<not> preflight get_alice_profile \<and>
   JWT_verify example_platform example_secret bob_token =
     Inr \<lparr>aud = ''users'', sub = Some (JString ''bob_2''),
          context_user =
            JObject [(''username'', JString ''bob_2''), (''password'', JString ''Abcdef1!'')]\<rparr> \<and>
   response (fst (handle example_platform example_router get_alice_profile example_world))
     = Some \<lparr>status = 401, sent = JsonText ''bob_2 has no permission for this resource''\<rparr>"
proof -
  let ?claims = "\<lparr>aud = ''users'', sub = Some (JString ''bob_2''),
          context_user =
            JObject [(''username'', JString ''bob_2''), (''password'', JString ''Abcdef1!'')]\<rparr>
          :: unit payload"
  have differs: "sub ?claims \<noteq> Some (JString ''alice_1'')" by simp
  show ?thesis
    using guard_subject_mismatch_401
            [OF example_router_simps(3) get_alice_profile_simps(1) get_alice_profile_simps(3)
                example_decode get_alice_profile_simps(4) get_alice_profile_simps(2)
                bob_token_verifies differs, of example_world]
      bob_token_verifies get_alice_profile_simps(4)
    by auto
qed

text \<open>
  C10, as stated (the subject check invokes \<open>next()\<close> unconditionally), does not hold: for
  the preflight to \<open>/alice_1/profile\<close> the check throws at \<open>req.user.sub\<close> before it
  reaches \<open>next()\<close>, and the request leaves the router with the error instead.
\<close>

theorem subject_check_preflight_counterexample:
  "preflight options_alice_profile \<and>
   (subject_check example_platform ''alice_1'' None :: error + (unit, nat) outcome)
     = Inl (Error ''TypeError'' undefined_sub_message) \<and>
   control (fst (handle example_platform example_router options_alice_profile example_world))
     = NextError (Error ''TypeError'' undefined_sub_message) \<and>
   control (fst (handle example_platform example_router options_alice_profile example_world))
     \<noteq> Next"
  using options_alice_profile_simps(4) options_alice_profile_outcome
  by (simp add: subject_check_def)

text \<open>
  C10, amended. Once \<open>express-jwt\<close> has verified the token of a request to a per-user path
  (the request is not a preflight), the subject check ends with \<open>next()\<close> in either branch:
  the request is handed to the handlers after the router, and when the subject is not the
  path's user this happens although the 401 response has been sent.
\<close>

theorem guard_always_calls_next:
  assumes "guard R = Some secret" and "path req = seg # rest"
    and "\<not> is_authorize (path req)" and "decode_param P seg = Inr user"
    and "\<not> preflight req"
    and "authorization req = Some t" and "JWT_verify P secret t = Inr req_user"
  shows "control (fst (handle P R req w)) = Next \<and>
         (sub req_user \<noteq> Some (JString user) \<longrightarrow>
            (\<exists>res. response (fst (handle P R req w)) = Some res \<and> status res = 401))"
proof -
  have verified: "ExpressJWT P secret req = Inr (Some req_user)"
    using assms(5-7) by (rule ExpressJWT_verified)
  have "handle P R req w = (user_guard P secret user req, w)"
    using assms(1-4) by (rule handle_guarded)
  then show ?thesis
    by (simp add: user_guard_verified[OF verified])
qed

theorem guard_always_calls_next_witness:
  "\<not> preflight get_alice_profile \<and>
   authorization get_alice_profile = Some bob_token \<and>
   control (fst (handle example_platform example_router get_alice_profile example_world)) = Next \<and>
   (\<exists>res. response (fst (handle example_platform example_router get_alice_profile
                            example_world)) = Some res \<and>
          status res = 401)"
proof -
  let ?claims = "\<lparr>aud = ''users'', sub = Some (JString ''bob_2''),
          context_user =
            JObject [(''username'', JString ''bob_2''), (''password'', JString ''Abcdef1!'')]\<rparr>
          :: unit payload"
  have differs: "sub ?claims \<noteq> Some (JString ''alice_1'')" by simp
  show ?thesis
    using guard_always_calls_next
            [OF example_router_simps(3) get_alice_profile_simps(1) get_alice_profile_simps(3)
                example_decode get_alice_profile_simps(4) get_alice_profile_simps(2)
                bob_token_verifies, of example_world]
      differs get_alice_profile_simps(2) get_alice_profile_simps(4)
    by blast
qed

subsection \<open>Registration\<close>

text \<open>
  A valid \<open>POST /\<close> hands the credentials to \<open>insertOne\<close>: its result is sent as it is, and
  its rejection becomes a 400 response with the collaborator's message.
\<close>

lemma register_result:
  assumes "validate (body req) = Inr ()"
    and "http_method req = ''POST''" and "path req = []"
    and "collectionPromise R = Fulfilled c"
    and "insertOne c (body req) (db w) = (Fulfilled result, d)"
  shows "handle P R req w =
           (\<lparr>response = Some \<lparr>status = 200, sent = JsonResult result\<rparr>, control = Ended\<rparr>,
            w\<lparr>db := d\<rparr>)"
  using assms by (simp add: handle_def post_root_def register_def middleware_passes)

lemma register_rejection:
  assumes "validate (body req) = Inr ()"
    and "http_method req = ''POST''" and "path req = []"
    and "collectionPromise R = Fulfilled c"
    and "insertOne c (body req) (db w) = (Rejected e, d)"
  shows "handle P R req w =
           (\<lparr>response = Some \<lparr>status = 400, sent = JsonText (message e)\<rparr>, control = Ended\<rparr>,
            w\<lparr>db := d\<rparr>)"
  using assms by (simp add: handle_def post_root_def register_def middleware_passes)

subsection \<open>From the issued token to the guard\<close>

text \<open>A fresh path: the first call creates a secret of 256 bytes.\<close>

lemma getRandomBytesFrom_creates:
  assumes "files w secretPath = None" and "secretPath \<notin> dirs w"
    and "path_dirname P secretPath \<notin> dom (files w)"
    and "path_dirname P secretPath \<noteq> secretPath"
  shows "\<exists>secret w1. getRandomBytesFrom P secretPath w = (Inr secret, w1) \<and>
                     length secret = 256 \<and> files w1 secretPath = Some secret"
  using assms by (auto simp: fs_defs)

text \<open>The database plays no part in the secret.\<close>

lemma getRandomBytesFrom_db:
  assumes "getRandomBytesFrom P secretPath w = (Inr secret, w)"
  shows "getRandomBytesFrom P secretPath (w\<lparr>db := d\<rparr>) = (Inr secret, w\<lparr>db := d\<rparr>)"
proof -
  from assms have f: "files w secretPath = Some secret"
    by (rule getRandomBytesFrom_stored)
  from assms have n: "path_dirname P secretPath \<notin> dom (files w)"
    by (auto simp: fs_defs split: if_splits)
  from assms f n have "w\<lparr>dirs := insert (path_dirname P secretPath) (dirs w)\<rparr> = w"
    by (simp add: getRandomBytesFrom_reads)
  then have "(w\<lparr>db := d\<rparr>)\<lparr>dirs := insert (path_dirname P secretPath) (dirs w)\<rparr> = w\<lparr>db := d\<rparr>"
    by (metis world.update_convs(1) world.update_convs(3) world.surjective world.select_convs(3))
  then show ?thesis
    using getRandomBytesFrom_reads[of "w\<lparr>db := d\<rparr>" secretPath secret P] f n by simp
qed

text \<open>The guard that \<open>Users\<close> adds holds the secret of the collection's path.\<close>

lemma Users_guard:
  assumes "Users P (Fulfilled c) dir w = (R, w1)" and "guard R = Some secret"
  shows "getRandomBytesFrom P (path_join P dir (collectionName c)) w1 = (Inr secret, w1) \<and>
         collectionPromise R = Fulfilled c \<and> secretsDir R = dir"
proof -
  obtain r w' where g: "getRandomBytesFrom P (path_join P dir (collectionName c)) w = (r, w')"
    by (cases "getRandomBytesFrom P (path_join P dir (collectionName c)) w")
  show ?thesis
  proof (cases r)
    case (Inl e)
    with g assms show ?thesis by (auto simp: Users_def)
  next
    case (Inr s)
    with g assms have "s = secret" "w' = w1" "collectionPromise R = Fulfilled c" "secretsDir R = dir"
      by (auto simp: Users_def)
    with g Inr show ?thesis using getRandomBytesFrom_fixed by blast
  qed
qed

text \<open>
  A router built by \<open>Users\<close> with its guard in place: the token that a valid
  \<open>POST /authorize\<close> of a stored user gets back, presented on a path of that user, passes
  the guard without a response.
\<close>

lemma issued_token_passes_guard:
  assumes "Users P (Fulfilled c) dir w = (R, w1)" and "guard R = Some secret"
    and "validate (body req) = Inr ()"
    and "http_method req = ''POST''" and "is_authorize (path req)"
    and "get_property (body req) ''username'' = Some (JString u)"
    and "findOne c (body req) (db w1) = (Fulfilled (Some user), d)"
    and "path req' = seg # rest" and "\<not> is_authorize (path req')"
    and "decode_param P seg = Inr u" and "\<not> preflight req'"
  shows "\<exists>t. handle P R req w1 =
               (\<lparr>response = Some \<lparr>status = 200, sent = JsonToken t\<rparr>, control = Ended\<rparr>,
                w1\<lparr>db := d\<rparr>) \<and>
             handle P R (req'\<lparr>authorization := Some t\<rparr>) (w1\<lparr>db := d\<rparr>) =
               (\<lparr>response = None, control = Next\<rparr>, w1\<lparr>db := d\<rparr>)"
proof -
  let ?path = "path_join P dir (collectionName c)"
  let ?claims = "\<lparr>aud = collectionName c, sub = get_property (body req) ''username'',
                  context_user = body req\<rparr>"
  let ?t = "JWT_sign P ?claims secret"
  let ?w2 = "w1\<lparr>db := d\<rparr>"
  from Users_guard[OF assms(1,2)]
  have s1: "getRandomBytesFrom P ?path w1 = (Inr secret, w1)"
    and R: "collectionPromise R = Fulfilled c" "secretsDir R = dir"
    by simp_all
  from s1 have s2: "getRandomBytesFrom P ?path ?w2 = (Inr secret, ?w2)"
    by (rule getRandomBytesFrom_db)
  have "authorize P (Fulfilled c) dir (body req) w1 = (Fulfilled ?t, ?w2)"
    using assms(7) s2 by (rule authorize_signs)
  then have issue: "handle P R req w1 =
               (\<lparr>response = Some \<lparr>status = 200, sent = JsonToken ?t\<rparr>, control = Ended\<rparr>, ?w2)"
    using assms(3-5) R is_authorize_not_root[OF assms(5)]
    by (simp add: handle_def post_authorize_def middleware_passes)
  let ?req = "req'\<lparr>authorization := Some ?t\<rparr>"
  have e: "ExpressJWT P secret ?req = Inr (Some ?claims)"
    using assms(11) by (simp add: ExpressJWT_def JWT_verify_sign preflight_def)
  have p: "path ?req = seg # rest" and n: "\<not> is_authorize (path ?req)"
    using assms(8,9) by simp_all
  have o: "sub ?claims = Some (JString u)" using assms(6) by simp
  have "handle P R ?req ?w2 = (\<lparr>response = None, control = Next\<rparr>, ?w2)"
    using assms(2) p n assms(10) e o by (rule guard_owner_passes)
  with issue show ?thesis by blast
qed

end
